theory Spec2Isabelle
  imports Main
begin

section \<open>JavaScript values\<close>

text \<open>
  The library is dynamically typed: address components may be strings or numbers, a
  missing positional argument is \<open>undefined\<close>, and a callback is a function value.
  Only the non-negative integers occur as LWM2M identifiers, so a number is a \<open>nat\<close>.
  A function value is identified by the text that string concatenation would render.
\<close>

datatype jsval = Undefined | Null | VStr string | VNum nat | VFn string

text \<open>Truthiness, as tested by \<open>&&\<close>, \<open>!\<close> and \<open>if\<close>.\<close>

fun truthy :: "jsval \<Rightarrow> bool" where
  "truthy Undefined = False"
| "truthy Null = False"
| "truthy (VStr s) = (s \<noteq> [])"
| "truthy (VNum n) = (n \<noteq> 0)"
| "truthy (VFn f) = True"

definition digit_char :: "nat \<Rightarrow> char" where
  "digit_char d = ''0123456789'' ! d"

function decimal :: "nat \<Rightarrow> string" where
  "decimal n = (if n < 10 then [digit_char n] else decimal (n div 10) @ [digit_char (n mod 10)])"
  by pat_completeness auto
termination
  by (relation "measure (\<lambda>n. n)") auto

declare decimal.simps [simp del]

text \<open>The string that \<open>'/' + v\<close> appends for a value \<open>v\<close>.\<close>

fun to_str :: "jsval \<Rightarrow> string" where
  "to_str Undefined = ''undefined''"
| "to_str Null = ''null''"
| "to_str (VStr s) = s"
| "to_str (VNum n) = decimal n"
| "to_str (VFn f) = f"

text \<open>Positional parameters: the \<open>n\<close>-th actual argument, \<open>undefined\<close> when not supplied.\<close>

definition arg :: "jsval list \<Rightarrow> nat \<Rightarrow> jsval" where
  "arg arguments n = (if n < length arguments then arguments ! n else Undefined)"

section \<open>Errors\<close>

text \<open>
  The typed failures of \<open>errors.js\<close>, each carrying its constructor's argument; a
  \<open>TypeError\<close> is the exception the runtime throws on calling a non-function or
  reading a property of \<open>undefined\<close>; \<open>External\<close> is a failure reported by a
  collaborator (device registry, object registry, transport).
\<close>

datatype error =
    RegistrationFailed string
  | ServerNotFound string
  | ObjectNotFound string
  | ClientError string
  | UnsupportedAttributes "string list"
  | TypeError
  | External string

section \<open>The request router (coapRouter.js)\<close>

text \<open>An inbound request of the local server and the response being built for it.\<close>

record incomingRequest =
  req_method :: string
  req_url :: string
  urlObj :: "string option"

record outgoingResponse =
  res_code :: string
  res_body :: "string option"

text \<open>A route is \<open>[method, pattern, operationName]\<close>; the pattern is what \<open>match\<close> decides.\<close>

type_synonym route = "string \<times> (string \<Rightarrow> bool) \<times> string"

record ('l, 'u) handlerPair =
  lib :: 'l
  user :: 'u

record ('l, 'u) routerInfo =
  server :: nat
  routes :: "route list"
  handlers :: "string \<rightharpoonup> ('l, 'u) handlerPair"

text \<open>What one run of the dispatch function does.\<close>

datatype ('l, 'u) dispatch =
    LibCall 'l incomingRequest outgoingResponse 'u
  | Ended outgoingResponse
  | Thrown error

text \<open>
  The loop of \<open>dataHandler\<close> over the route table, in index order. A matching route
  whose operation has no handler pair makes the property access throw.
\<close>

fun scanRoutes ::
  "(string \<rightharpoonup> ('l, 'u) handlerPair) \<Rightarrow> incomingRequest \<Rightarrow> string \<Rightarrow> outgoingResponse \<Rightarrow> route list
     \<Rightarrow> ('l, 'u) dispatch" where
  "scanRoutes hs req path res [] = Ended (res\<lparr>res_code := ''4.04'', res_body := Some []\<rparr>)"
| "scanRoutes hs req path res (r # rs) =
     (if req_method req = fst r \<and> (fst (snd r)) path then
        (case hs (snd (snd r)) of
           None \<Rightarrow> Thrown TypeError
         | Some h \<Rightarrow> LibCall (lib h) req res (user h))
      else scanRoutes hs req path res rs)"

text \<open>
  \<open>dataHandler\<close>: \<open>parse\<close> stands for \<open>url.parse(_).pathname\<close> of the platform; the
  parsed pathname is stored on the request before the scan.
\<close>

definition dataHandler ::
  "(string \<Rightarrow> string) \<Rightarrow> ('l, 'u) routerInfo \<Rightarrow> incomingRequest \<Rightarrow> outgoingResponse
     \<Rightarrow> ('l, 'u) dispatch" where
  "dataHandler parse serverInfo req res =
     scanRoutes (handlers serverInfo) (req\<lparr>urlObj := Some (parse (req_url req))\<rparr>)
       (parse (req_url req)) res (routes serverInfo)"

text \<open>The test of the loop for one route, as a predicate.\<close>

definition route_matches :: "string \<Rightarrow> string \<Rightarrow> route \<Rightarrow> bool" where
  "route_matches m path r = (m = fst r \<and> (fst (snd r)) path)"

text \<open>Calling a value: a function is invoked with the arguments, anything else throws.\<close>

datatype invocation = Invoked string "jsval list" | Threw error

definition call_js :: "jsval \<Rightarrow> jsval list \<Rightarrow> invocation" where
  "call_js f args = (case f of VFn g \<Rightarrow> Invoked g args | _ \<Rightarrow> Threw TypeError)"

text \<open>\<open>defaultHandler\<close>: the last function among the arguments is called with none.\<close>

fun lastFunction :: "jsval list \<Rightarrow> jsval \<Rightarrow> jsval" where
  "lastFunction [] callback = callback"
| "lastFunction (a # as) callback =
     lastFunction as (case a of VFn g \<Rightarrow> a | _ \<Rightarrow> callback)"

definition defaultHandler :: "jsval list \<Rightarrow> invocation" where
  "defaultHandler arguments = call_js (lastFunction arguments Null) []"

text \<open>
  \<open>startCoap\<close>: the outcome of \<open>listen\<close> is the transport's; the callback receives it
  together with the fresh server record (no routes, no handlers).
\<close>

definition startCoap :: "nat \<Rightarrow> error option \<Rightarrow> error option \<times> ('l, 'u) routerInfo" where
  "startCoap handle listened = (listened, \<lparr>server = handle, routes = [], handlers = Map.empty\<rparr>)"

text \<open>\<open>setHandler\<close> overwrites the user handler of one operation slot.\<close>

definition setHandler ::
  "('l, 'u) routerInfo \<Rightarrow> string \<Rightarrow> 'u \<Rightarrow> error + ('l, 'u) routerInfo" where
  "setHandler serverInfo type handler =
     (case handlers serverInfo type of
        None \<Rightarrow> Inl TypeError
      | Some h \<Rightarrow> Inr (serverInfo\<lparr>handlers := (handlers serverInfo)(type \<mapsto> h\<lparr>user := handler\<rparr>)\<rparr>))"

text \<open>
  The pattern \<open>/(\/\d+)+/\<close> of the client's routes is not anchored: it matches a path
  that has a slash directly followed by a decimal digit somewhere.
\<close>

definition is_digit :: "char \<Rightarrow> bool" where
  "is_digit c = (c \<in> set ''0123456789'')"

fun ids_pattern :: "string \<Rightarrow> bool" where
  "ids_pattern (c # d # cs) = ((c = CHR ''/'' \<and> is_digit d) \<or> ids_pattern (d # cs))"
| "ids_pattern cs = False"

section \<open>Outbound requests and received responses\<close>

text \<open>
  The descriptor handed to the transport; fields a call site does not set are absent.
  A received response has a code, a list of (name, value) options and a payload.
\<close>

record requestDescriptor =
  host :: string
  port :: jsval
  "method" :: string
  pathname :: string
  query :: "string option"
  req_payload :: "jsval option"
  req_options :: "(string \<times> string) list"
  agent :: "bool option"

record response =
  code :: string
  options :: "(string \<times> string) list"
  payload :: string

section \<open>Device-management operations\<close>

record device =
  address :: string

text \<open>
  Collaborators that are not part of these files are parameters: the device registry's
  \<open>get\<close>, the transport's \<open>sendRequest\<close> and the response interpreter that
  \<open>coapUtils.generateProcessResponse\<close> returns.
\<close>

type_synonym registry = "jsval \<Rightarrow> error + device"
type_synonym transport = "requestDescriptor \<Rightarrow> error + response"
type_synonym interpreter = "jsval \<Rightarrow> jsval \<Rightarrow> jsval \<Rightarrow> string \<Rightarrow> response \<Rightarrow> error + string"

text \<open>
  What an operation did: the requests handed to the transport, in order, and the value
  the pipeline was completed with, paired with the value it was handed to as its final
  callback (\<open>None\<close> when no pipeline was started).
\<close>

record outcome =
  sent :: "requestDescriptor list"
  delivered :: "(jsval \<times> (error + string)) option"

text \<open>
  The tail of every pipeline, \<open>[create, sendRequest, process]\<close>, once the device is
  known: a failing step hands its error to the callback and the later steps are skipped.
\<close>

definition sendAndProcess ::
  "transport \<Rightarrow> requestDescriptor \<Rightarrow> (response \<Rightarrow> error + string) \<Rightarrow> jsval \<Rightarrow> outcome" where
  "sendAndProcess sendRequest request process callback =
     (case sendRequest request of
        Inl e \<Rightarrow> \<lparr>sent = [request], delivered = Some (callback, Inl e)\<rparr>
      | Inr res \<Rightarrow> \<lparr>sent = [request], delivered = Some (callback, process res)\<rparr>)"

text \<open>\<open>async.waterfall([registry.get, create, sendRequest, process], callback)\<close>.\<close>

definition waterfall ::
  "registry \<Rightarrow> transport \<Rightarrow> jsval \<Rightarrow> (device \<Rightarrow> requestDescriptor) \<Rightarrow> (response \<Rightarrow> error + string)
     \<Rightarrow> jsval \<Rightarrow> outcome" where
  "waterfall registry_get sendRequest deviceId create process callback =
     (case registry_get deviceId of
        Inl e \<Rightarrow> \<lparr>sent = [], delivered = Some (callback, Inl e)\<rparr>
      | Inr obj \<Rightarrow> sendAndProcess sendRequest (create obj) process callback)"

definition path3 :: "jsval \<Rightarrow> jsval \<Rightarrow> jsval \<Rightarrow> string" where
  "path3 objectType objectId resourceId =
     ''/'' @ to_str objectType @ ''/'' @ to_str objectId @ ''/'' @ to_str resourceId"

definition path2 :: "jsval \<Rightarrow> jsval \<Rightarrow> string" where
  "path2 objectType objectId = ''/'' @ to_str objectType @ ''/'' @ to_str objectId"

definition path1 :: "jsval \<Rightarrow> string" where
  "path1 objectType = ''/'' @ to_str objectType"

definition read_op ::
  "registry \<Rightarrow> transport \<Rightarrow> interpreter \<Rightarrow> jsval \<Rightarrow> jsval \<Rightarrow> jsval \<Rightarrow> jsval \<Rightarrow> jsval \<Rightarrow> outcome" where
  "read_op registry_get sendRequest generateProcessResponse deviceId objectType objectId resourceId callback =
     waterfall registry_get sendRequest deviceId
       (\<lambda>obj. \<lparr>host = address obj, port = VNum 5683, method = ''GET'',
               pathname = path3 objectType objectId resourceId, query = None,
               req_payload = None, req_options = [], agent = None\<rparr>)
       (generateProcessResponse objectType objectId resourceId ''2.05'') callback"

text \<open>\<open>write\<close>: its own interpretation of the response code.\<close>

definition write_processResponse :: "jsval \<Rightarrow> jsval \<Rightarrow> response \<Rightarrow> error + string" where
  "write_processResponse objectType objectId res =
     (if code res = ''2.04'' then Inr (payload res)
      else if code res = ''4.04'' then Inl (ObjectNotFound (path2 objectType objectId))
      else Inl (ClientError (code res)))"

definition createUpdateRequest :: "jsval \<Rightarrow> jsval \<Rightarrow> jsval \<Rightarrow> jsval \<Rightarrow> device \<Rightarrow> requestDescriptor" where
  "createUpdateRequest objectType objectId resourceId val obj =
     \<lparr>host = address obj, port = VNum 5683, method = ''PUT'',
      pathname = path3 objectType objectId resourceId, query = None,
      req_payload = Some val, req_options = [], agent = None\<rparr>"

definition write_op ::
  "registry \<Rightarrow> transport \<Rightarrow> jsval \<Rightarrow> jsval \<Rightarrow> jsval \<Rightarrow> jsval \<Rightarrow> jsval \<Rightarrow> jsval \<Rightarrow> outcome" where
  "write_op registry_get sendRequest deviceId objectType objectId resourceId val callback =
     waterfall registry_get sendRequest deviceId
       (createUpdateRequest objectType objectId resourceId val)
       (write_processResponse objectType objectId) callback"

text \<open>\<open>execute\<close> has the single parameter \<open>callback\<close>; \<open>remove\<close> has four.\<close>

record stubOutcome =
  stub_sent :: "requestDescriptor list"
  stub_call :: invocation

definition execute :: "jsval list \<Rightarrow> stubOutcome" where
  "execute arguments = \<lparr>stub_sent = [], stub_call = call_js (arg arguments 0) [Null]\<rparr>"

definition remove_op :: "jsval list \<Rightarrow> stubOutcome" where
  "remove_op arguments = \<lparr>stub_sent = [], stub_call = call_js (arg arguments 3) [Null]\<rparr>"

text \<open>
  \<open>writeAttributes\<close>. The attribute map is an object: its own enumerable properties in
  enumeration order, the enumerable properties it inherits (which \<open>for ... in\<close> visits
  after its own), and whether \<open>Object.prototype\<close> is on its prototype chain.
\<close>

record jsobject =
  own :: "(string \<times> jsval) list"
  inherited :: "(string \<times> jsval) list"
  plain :: bool

definition validAttributes :: "string list" where
  "validAttributes = [''pmin'', ''pmax'', ''gt'', ''lt'', ''st'', ''cancel'']"

text \<open>
  What \<open>attributes.hasOwnProperty\<close> evaluates to: a property of that name on the object
  or its chain comes first, and is either a function of the caller's or a value that
  cannot be called; otherwise the built-in of \<open>Object.prototype\<close>, when the object has
  that prototype.
\<close>

datatype hasOwn = Builtin | Custom string | NotCallable

definition hasOwnPropertyOf :: "jsobject \<Rightarrow> hasOwn" where
  "hasOwnPropertyOf attributes =
     (case map_of (own attributes @ inherited attributes) ''hasOwnProperty'' of
        Some (VFn g) \<Rightarrow> Custom g
      | Some v \<Rightarrow> NotCallable
      | None \<Rightarrow> if plain attributes then Builtin else NotCallable)"

text \<open>
  The call \<open>attributes.hasOwnProperty(i)\<close>: the built-in answers whether \<open>i\<close> is an own
  key; a function of the caller's does what \<open>userCall\<close> says (it throws or returns a
  value, tested for truthiness); calling anything else throws.
\<close>

definition callHasOwnProperty ::
  "(string \<Rightarrow> jsval list \<Rightarrow> error + jsval) \<Rightarrow> jsobject \<Rightarrow> string \<Rightarrow> error + bool" where
  "callHasOwnProperty userCall attributes i =
     (case hasOwnPropertyOf attributes of
        Builtin \<Rightarrow> Inr (List.member (map fst (own attributes)) i)
      | Custom g \<Rightarrow> (case userCall g [VStr i] of Inl e \<Rightarrow> Inl e | Inr v \<Rightarrow> Inr (truthy v))
      | NotCallable \<Rightarrow> Inl TypeError)"

text \<open>
  The loop of \<open>createQueryParams\<close> over the enumerated properties, with the two
  accumulators \<open>result\<close> and \<open>errorList\<close>; an exception of the \<open>hasOwnProperty\<close> call
  ends it.
\<close>

fun scanAttributes ::
  "(string \<Rightarrow> jsval list \<Rightarrow> error + jsval) \<Rightarrow> jsobject \<Rightarrow> (string \<times> jsval) list \<Rightarrow> string \<Rightarrow> string list
     \<Rightarrow> error + string \<times> string list" where
  "scanAttributes userCall attributes [] result errorList = Inr (result, errorList)"
| "scanAttributes userCall attributes (a # rest) result errorList =
     (case callHasOwnProperty userCall attributes (fst a) of
        Inl e \<Rightarrow> Inl e
      | Inr is_own \<Rightarrow>
          if is_own then
            (if List.member validAttributes (fst a)
             then scanAttributes userCall attributes rest
                    (result @ fst a @ ''='' @ to_str (snd a) @ ''&'') errorList
             else scanAttributes userCall attributes rest result (errorList @ [fst a]))
          else scanAttributes userCall attributes rest result errorList)"

text \<open>
  \<open>createQueryParams\<close> either throws, or reports to \<open>innerCb\<close>: the error carrying the
  error list when it is not empty, the query string otherwise.
\<close>

datatype queryParams = Raised error | Reported "error + string"

definition createQueryParams ::
  "(string \<Rightarrow> jsval list \<Rightarrow> error + jsval) \<Rightarrow> jsobject \<Rightarrow> queryParams" where
  "createQueryParams userCall attributes =
     (case scanAttributes userCall attributes (own attributes @ inherited attributes) ''?'' [] of
        Inl e \<Rightarrow> Raised e
      | Inr (result, errorList) \<Rightarrow>
          Reported (if errorList \<noteq> [] then Inl (UnsupportedAttributes errorList) else Inr result))"

definition createWriteAttributesRequest ::
  "jsval \<Rightarrow> jsval \<Rightarrow> jsval \<Rightarrow> device \<times> string \<Rightarrow> requestDescriptor" where
  "createWriteAttributesRequest objectType objectId resourceId data =
     \<lparr>host = address (fst data), port = VNum 5683, method = ''PUT'',
      pathname =
        (if truthy objectType \<and> truthy objectId \<and> truthy resourceId
           then path3 objectType objectId resourceId @ snd data
         else if truthy objectType \<and> truthy objectId
           then path2 objectType objectId @ snd data
         else path1 objectType @ snd data),
      query = None, req_payload = None, req_options = [], agent = None\<rparr>"

text \<open>
  \<open>async.parallel([registry.get, createQueryParams])\<close>: both results, or the error
  that is reported first. \<open>createQueryParams\<close> reports before it returns; the registry
  does so only when it answers synchronously, which is the flag \<open>sync\<close>.
\<close>

definition parallel ::
  "bool \<Rightarrow> error + device \<Rightarrow> error + string \<Rightarrow> error + device \<times> string" where
  "parallel sync looked params =
     (case looked of
        Inr obj \<Rightarrow> (case params of Inr q \<Rightarrow> Inr (obj, q) | Inl e \<Rightarrow> Inl e)
      | Inl e \<Rightarrow> (case params of Inr q \<Rightarrow> Inl e | Inl e' \<Rightarrow> Inl (if sync then e else e')))"

text \<open>
  What \<open>writeAttributes\<close> did: as for the other operations, and the exception that left
  it, if any.
\<close>

record thrownOutcome = outcome +
  thrown :: "error option"

text \<open>
  \<open>writeAttributes\<close>. The registry is asked first; an exception of
  \<open>createQueryParams\<close> then leaves the operation through \<open>async.parallel\<close> and
  \<open>async.waterfall\<close>, after the callback has received the error of a registry that
  failed synchronously, and before anything else.
\<close>

definition writeAttributes ::
  "(string \<Rightarrow> jsval list \<Rightarrow> error + jsval) \<Rightarrow> bool \<Rightarrow> registry \<Rightarrow> transport \<Rightarrow> interpreter
     \<Rightarrow> jsval \<Rightarrow> jsval \<Rightarrow> jsval \<Rightarrow> jsval \<Rightarrow> jsobject \<Rightarrow> jsval \<Rightarrow> thrownOutcome" where
  "writeAttributes userCall sync registry_get sendRequest generateProcessResponse
       deviceId objectType objectId resourceId attributes callback =
     (case createQueryParams userCall attributes of
        Raised x \<Rightarrow>
          \<lparr>sent = [],
           delivered = (case registry_get deviceId of
                          Inl e \<Rightarrow> if sync then Some (callback, Inl e) else None
                        | Inr obj \<Rightarrow> None),
           thrown = Some x\<rparr>
      | Reported params \<Rightarrow>
          (case parallel sync (registry_get deviceId) params of
             Inl e \<Rightarrow> \<lparr>sent = [], delivered = Some (callback, Inl e), thrown = None\<rparr>
           | Inr data \<Rightarrow>
               \<lparr>sent = sent (sendAndProcess sendRequest
                        (createWriteAttributesRequest objectType objectId resourceId data)
                        (generateProcessResponse objectType objectId resourceId ''2.04'') callback),
                delivered = delivered (sendAndProcess sendRequest
                        (createWriteAttributesRequest objectType objectId resourceId data)
                        (generateProcessResponse objectType objectId resourceId ''2.04'') callback),
                thrown = None\<rparr>))"

text \<open>
  \<open>discover\<close>: the five positional parameters; the first three tests choose the path
  and the value used as the callback.
\<close>

definition discover_pathname :: "jsval \<Rightarrow> jsval \<Rightarrow> jsval \<Rightarrow> jsval \<Rightarrow> string" where
  "discover_pathname objectType objectId resourceId fullCallback =
     (if truthy objectId \<and> truthy resourceId \<and> truthy fullCallback
        then path3 objectType objectId resourceId
      else if truthy objectId \<and> truthy resourceId
        then path2 objectType objectId
      else path1 objectType)"

definition discover_trueCallback :: "jsval \<Rightarrow> jsval \<Rightarrow> jsval \<Rightarrow> jsval" where
  "discover_trueCallback objectId resourceId fullCallback =
     (if truthy objectId \<and> truthy resourceId \<and> truthy fullCallback then fullCallback
      else if truthy objectId \<and> truthy resourceId then resourceId
      else objectId)"

definition createReadRequest :: "string \<Rightarrow> device \<Rightarrow> requestDescriptor" where
  "createReadRequest path obj =
     \<lparr>host = address obj, port = VNum 5683, method = ''GET'', pathname = path,
      query = None, req_payload = None,
      req_options = [(''Accept'', ''application/link-format'')], agent = None\<rparr>"

definition discover ::
  "registry \<Rightarrow> transport \<Rightarrow> interpreter \<Rightarrow> jsval \<Rightarrow> jsval \<Rightarrow> jsval \<Rightarrow> jsval \<Rightarrow> jsval \<Rightarrow> outcome" where
  "discover registry_get sendRequest generateProcessResponse
       deviceId objectType objectId resourceId fullCallback =
     (if \<not> truthy objectType \<and> \<not> truthy objectId \<and> \<not> truthy resourceId
      then \<lparr>sent = [], delivered = None\<rparr>
      else waterfall registry_get sendRequest deviceId
             (createReadRequest (discover_pathname objectType objectId resourceId fullCallback))
             (generateProcessResponse objectType objectId resourceId ''2.05'')
             (discover_trueCallback objectId resourceId fullCallback))"

definition create_op ::
  "registry \<Rightarrow> transport \<Rightarrow> interpreter \<Rightarrow> jsval \<Rightarrow> jsval \<Rightarrow> jsval \<Rightarrow> jsval \<Rightarrow> outcome" where
  "create_op registry_get sendRequest generateProcessResponse deviceId objectType objectId callback =
     waterfall registry_get sendRequest deviceId
       (\<lambda>obj. \<lparr>host = address obj, port = VNum 5683, method = ''POST'',
               pathname = path2 objectType objectId, query = None,
               req_payload = None, req_options = [], agent = None\<rparr>)
       (generateProcessResponse objectType objectId Null ''2.01'') callback"

section \<open>The client (iotagent-lwm2m-client.js)\<close>

text \<open>
  The library handlers of the client live in other modules and are only named here; a
  user handler is the router's default one or one installed by the application.
\<close>

datatype libHandler = ClientWriteHandle | ClientReadHandle

datatype userHandler = DefaultHandler | UserHandler string

type_synonym clientRouter = "(libHandler, userHandler) routerInfo"

record deviceInformation =
  currentHost :: string
  currentPort :: string
  location :: string
  serverInfo :: clientRouter

text \<open>The part of the configuration the client reads, as the strings it concatenates.\<close>

record clientConfig =
  lifetime :: string
  version :: string

record lwm2mObject =
  objectUri :: string

definition loadHandlers :: "clientRouter \<Rightarrow> clientRouter" where
  "loadHandlers si =
     si\<lparr>handlers := [''write'' \<mapsto> \<lparr>lib = ClientWriteHandle, user = DefaultHandler\<rparr>,
                     ''read'' \<mapsto> \<lparr>lib = ClientReadHandle, user = DefaultHandler\<rparr>]\<rparr>"

definition loadRoutes :: "clientRouter \<Rightarrow> clientRouter" where
  "loadRoutes si =
     si\<lparr>routes := [(''PUT'', ids_pattern, ''write''), (''GET'', ids_pattern, ''read'')]\<rparr>"

text \<open>
  \<open>startListener\<close>: when the router fails to start the callback gets the error alone;
  otherwise the fresh record, with the empty location, after both tables are loaded.
\<close>

definition startListener :: "string \<Rightarrow> string \<Rightarrow> nat \<Rightarrow> error option \<Rightarrow> error + deviceInformation" where
  "startListener h p handle listened =
     (case startCoap handle listened of
        (Some e, si) \<Rightarrow> Inl e
      | (None, si) \<Rightarrow>
          Inr \<lparr>currentHost = h, currentPort = p, location = [],
               serverInfo = loadRoutes (loadHandlers si)\<rparr>)"

text \<open>
  What the client does that its caller or its collaborators can see: the completion
  callback invoked with an error or with the record, the router stopped (with the
  client's logging callback, or handing the caller's callback on), an exception that
  nothing catches.
\<close>

datatype action =
    Callback "error + deviceInformation"
  | StopRouter clientRouter
  | StopRouterThenCallback clientRouter
  | Uncaught error

text \<open>The loop of the response handler over the options: every match overwrites.\<close>

fun scanOptions :: "(string \<times> string) list \<Rightarrow> deviceInformation \<Rightarrow> deviceInformation" where
  "scanOptions [] d = d"
| "scanOptions (opt # rest) d =
     scanOptions rest (if fst opt = ''Location-Path'' then d\<lparr>location := snd opt\<rparr> else d)"

text \<open>
  \<open>createRegisterResponseHandler\<close>. The record is the one \<open>startListener\<close> passed on,
  which is \<open>undefined\<close> when the router did not start; the success branch reads a
  property of it first.
\<close>

definition responseHandler ::
  "deviceInformation option \<Rightarrow> response \<Rightarrow> deviceInformation option \<times> action list" where
  "responseHandler deviceInfo res =
     (if code res = ''2.01'' then
        (case deviceInfo of
           None \<Rightarrow> (None, [Uncaught TypeError])
         | Some d \<Rightarrow> (Some (scanOptions (options res) d),
                      [Callback (Inr (scanOptions (options res) d))]))
      else (deviceInfo, [Callback (Inl (RegistrationFailed (code res)))]))"

text \<open>\<open>generatePayload\<close>: the reduction over the objects, with its index.\<close>

fun reducePayload :: "lwm2mObject list \<Rightarrow> nat \<Rightarrow> nat \<Rightarrow> string \<Rightarrow> string" where
  "reducePayload [] index len previous = previous"
| "reducePayload (current # rest) index len previous =
     reducePayload rest (Suc index) len
       (previous @ ''<'' @ objectUri current @ ''>'' @ (if index \<noteq> len - 1 then '','' else []))"

definition generatePayload :: "lwm2mObject list \<Rightarrow> string" where
  "generatePayload objects = reducePayload objects 0 (length objects) []"

text \<open>
  The state one call of \<open>register\<close> keeps in its closure: its arguments \<open>host\<close> and
  \<open>port\<close>, the flag \<open>errorEmitted\<close> and the record given by \<open>startListener\<close>.
\<close>

record registration =
  reg_host :: string
  reg_port :: string
  errorEmitted :: bool
  deviceInfo :: "deviceInformation option"

datatype event = ErrorEvent string | ResponseEvent response

text \<open>The listener of the request's \<open>error\<close> event.\<close>

definition errorListener :: "registration \<Rightarrow> registration \<times> action list" where
  "errorListener s =
     (case deviceInfo s of
        None \<Rightarrow> (s, [Uncaught TypeError])
      | Some d \<Rightarrow>
          (s\<lparr>errorEmitted := True\<rparr>,
           StopRouter (serverInfo d) #
             (if \<not> errorEmitted s
              then [Callback (Inl (ServerNotFound (reg_host s @ '':'' @ reg_port s)))]
              else [])))"

fun onEvent :: "registration \<Rightarrow> event \<Rightarrow> registration \<times> action list" where
  "onEvent s (ErrorEvent e) = errorListener s"
| "onEvent s (ResponseEvent res) =
     (s\<lparr>deviceInfo := fst (responseHandler (deviceInfo s) res)\<rparr>,
      snd (responseHandler (deviceInfo s) res))"

fun runEvents :: "registration \<Rightarrow> event list \<Rightarrow> registration \<times> action list" where
  "runEvents s [] = (s, [])"
| "runEvents s (e # es) =
     (fst (runEvents (fst (onEvent s e)) es),
      snd (onEvent s e) @ snd (runEvents (fst (onEvent s e)) es))"

text \<open>
  \<open>register\<close>: the request it creates, the payload it pipes into it (none when the
  object registry fails to list), and the state its two listeners start from. The
  listing is the object registry's answer.
\<close>

record registerStart =
  created :: requestDescriptor
  piped :: "string option"
  listening :: registration

definition register ::
  "clientConfig \<Rightarrow> string \<Rightarrow> string \<Rightarrow> jsval \<Rightarrow> string \<Rightarrow> nat \<Rightarrow> error option
     \<Rightarrow> error + lwm2mObject list \<Rightarrow> registerStart" where
  "register config h p u endpointName handle listened listing =
     \<lparr>created =
        \<lparr>host = h, port = VStr p, method = ''POST'',
         pathname = (if truthy u then to_str u else []) @ ''/rd'',
         query = Some (''ep='' @ endpointName @ ''&lt='' @ lifetime config @
                       ''&lwm2m='' @ version config @ ''&b=U''),
         req_payload = None, req_options = [], agent = None\<rparr>,
      piped = (case listing of Inl e \<Rightarrow> None | Inr objects \<Rightarrow> Some (generatePayload objects)),
      listening =
        \<lparr>reg_host = h, reg_port = p, errorEmitted = False,
         deviceInfo = (case startListener h p handle listened of
                         Inl e \<Rightarrow> None | Inr d \<Rightarrow> Some d)\<rparr>\<rparr>"


definition unregisterResponse :: "deviceInformation \<Rightarrow> response \<Rightarrow> action list" where
  "unregisterResponse d res = [StopRouterThenCallback (serverInfo d)]"

text \<open>
  \<open>updateRegistration\<close>: the request it creates and the payload it pipes into it (none
  when the listing fails), and the listener of the response.
\<close>

definition updateRegistration ::
  "clientConfig \<Rightarrow> deviceInformation \<Rightarrow> error + lwm2mObject list \<Rightarrow> requestDescriptor \<times> string option" where
  "updateRegistration config d listing =
     (\<lparr>host = currentHost d, port = VStr (currentPort d), method = ''PUT'',
       pathname = location d,
       query = Some (''lt='' @ lifetime config @ ''&lwm2m='' @ version config @ ''&b=U''),
       req_payload = None, req_options = [], agent = None\<rparr>,
      (case listing of Inl e \<Rightarrow> None | Inr objects \<Rightarrow> Some (generatePayload objects)))"

definition updateResponse :: "deviceInformation \<Rightarrow> response \<Rightarrow> deviceInformation \<times> action list" where
  "updateResponse d res = (d, [Callback (Inr d)])"

section \<open>Notions of the specification\<close>

text \<open>
  The properties below are stated with these, which follow the specification's words
  and are compared with what the code computes: the values of the Location-Path
  options of a response, in order; the fixed whitelist of attribute names; the query
  string \<open>?name=value&\<close> repeated for each attribute; the invocations of the completion
  callback among the actions of the client.
\<close>

definition locationPaths :: "(string \<times> string) list \<Rightarrow> string list" where
  "locationPaths opts = map snd (filter (\<lambda>opt. fst opt = ''Location-Path'') opts)"

definition whitelisted :: "string \<Rightarrow> bool" where
  "whitelisted k = (k \<in> {''pmin'', ''pmax'', ''gt'', ''lt'', ''st'', ''cancel''})"

definition queryOf :: "(string \<times> jsval) list \<Rightarrow> string" where
  "queryOf attributes = ''?'' @ concat (map (\<lambda>a. fst a @ ''='' @ to_str (snd a) @ ''&'') attributes)"

fun isCallback :: "action \<Rightarrow> bool" where
  "isCallback (Callback a) = True"
| "isCallback a = False"

section \<open>Router dispatch\<close>

lemma scanRoutes_no_match:
  "list_all (\<lambda>r. \<not> route_matches (req_method req) p r) rs \<Longrightarrow>
   scanRoutes hs req p res rs = Ended (res\<lparr>res_code := ''4.04'', res_body := Some []\<rparr>)"
  by (induction rs) (auto simp: route_matches_def)

lemma scanRoutes_first_match:
  "list_all (\<lambda>r. \<not> route_matches (req_method req) p r) pre \<Longrightarrow> route_matches (req_method req) p r \<Longrightarrow>
   scanRoutes hs req p res (pre @ r # post) =
     (case hs (snd (snd r)) of None \<Rightarrow> Thrown TypeError | Some h \<Rightarrow> LibCall (lib h) req res (user h))"
  by (induction pre) (auto simp: route_matches_def)

lemma routes_split:
  "list_all (\<lambda>r. \<not> P r) rs \<or>
   (\<exists>pre r post. rs = pre @ r # post \<and> list_all (\<lambda>r. \<not> P r) pre \<and> P r)"
proof (induction rs)
  case Nil
  show ?case by simp
next
  case (Cons a rs)
  show ?case
  proof (cases "P a")
    case True
    then have "a # rs = [] @ a # rs \<and> list_all (\<lambda>r. \<not> P r) [] \<and> P a" by simp
    then show ?thesis by blast
  next
    case False
    from Cons.IH show ?thesis
    proof
      assume "list_all (\<lambda>r. \<not> P r) rs"
      with False show ?thesis by simp
    next
      assume "\<exists>pre r post. rs = pre @ r # post \<and> list_all (\<lambda>r. \<not> P r) pre \<and> P r"
      then obtain pre r post where "rs = pre @ r # post" "list_all (\<lambda>r. \<not> P r) pre" "P r" by blast
      with False have "a # rs = (a # pre) @ r # post \<and> list_all (\<lambda>r. \<not> P r) (a # pre) \<and> P r" by simp
      then show ?thesis by blast
    qed
  qed
qed

text \<open>
  C3. The route table is scanned in order. When the routes before \<open>r\<close> do not match
  the request, \<open>r\<close> matches it (same method, pattern matching the parsed path) and the
  operation of \<open>r\<close> has the handler pair \<open>h\<close>, the dispatch is the single call of
  \<open>lib h\<close> on the request, the response and \<open>user h\<close>, whatever routes follow. When no
  route matches, the response is ended with code 4.04 and the empty body.
\<close>

theorem dispatch_first_match_or_not_found:
  "(routes si = pre @ r # post \<and>
    list_all (\<lambda>r'. \<not> route_matches (req_method req) (parse (req_url req)) r') pre \<and>
    route_matches (req_method req) (parse (req_url req)) r \<and>
    handlers si (snd (snd r)) = Some h
    \<longrightarrow> dataHandler parse si req res =
          LibCall (lib h) (req\<lparr>urlObj := Some (parse (req_url req))\<rparr>) res (user h)) \<and>
   (list_all (\<lambda>r'. \<not> route_matches (req_method req) (parse (req_url req)) r') (routes si)
    \<longrightarrow> dataHandler parse si req res = Ended (res\<lparr>res_code := ''4.04'', res_body := Some []\<rparr>))"
proof (intro conjI impI)
  assume a: "routes si = pre @ r # post \<and>
    list_all (\<lambda>r'. \<not> route_matches (req_method req) (parse (req_url req)) r') pre \<and>
    route_matches (req_method req) (parse (req_url req)) r \<and>
    handlers si (snd (snd r)) = Some h"
  let ?req = "req\<lparr>urlObj := Some (parse (req_url req))\<rparr>"
  have m: "req_method ?req = req_method req" by simp
  from a have "scanRoutes (handlers si) ?req (parse (req_url req)) res (pre @ r # post) =
      LibCall (lib h) ?req res (user h)"
    using scanRoutes_first_match [of ?req "parse (req_url req)" pre r "handlers si" res post]
    by (simp add: m)
  with a show "dataHandler parse si req res = LibCall (lib h) ?req res (user h)"
    by (simp add: dataHandler_def)
next
  assume a: "list_all (\<lambda>r'. \<not> route_matches (req_method req) (parse (req_url req)) r') (routes si)"
  let ?req = "req\<lparr>urlObj := Some (parse (req_url req))\<rparr>"
  show "dataHandler parse si req res = Ended (res\<lparr>res_code := ''4.04'', res_body := Some []\<rparr>)"
    using a scanRoutes_no_match [of ?req "parse (req_url req)" "routes si" "handlers si" res]
    by (simp add: dataHandler_def)
qed

theorem dispatch_first_match_or_not_found_witness:
  "dataHandler (\<lambda>u. u) (loadRoutes (loadHandlers \<lparr>server = 0, routes = [], handlers = Map.empty\<rparr>))
      \<lparr>req_method = ''GET'', req_url = ''/3/0/1'', urlObj = None\<rparr>
      \<lparr>res_code = ''2.05'', res_body = None\<rparr>
    = LibCall ClientReadHandle \<lparr>req_method = ''GET'', req_url = ''/3/0/1'', urlObj = Some ''/3/0/1''\<rparr>
        \<lparr>res_code = ''2.05'', res_body = None\<rparr> DefaultHandler \<and>
   dataHandler (\<lambda>u. u) (loadRoutes (loadHandlers \<lparr>server = 0, routes = [], handlers = Map.empty\<rparr>))
      \<lparr>req_method = ''DELETE'', req_url = ''/3/0/1'', urlObj = None\<rparr>
      \<lparr>res_code = ''2.05'', res_body = None\<rparr>
    = Ended \<lparr>res_code = ''4.04'', res_body = Some []\<rparr>"
proof -
  let ?si = "loadRoutes (loadHandlers \<lparr>server = 0, routes = [], handlers = Map.empty\<rparr>) :: clientRouter"
  let ?res = "\<lparr>res_code = ''2.05'', res_body = None\<rparr>"
  have a: "routes ?si = [(''PUT'', ids_pattern, ''write'')] @ (''GET'', ids_pattern, ''read'') # []"
    by (simp add: loadRoutes_def)
  have h: "handlers ?si ''read'' = Some \<lparr>lib = ClientReadHandle, user = DefaultHandler\<rparr>"
    by (simp add: loadRoutes_def loadHandlers_def)
  have p: "ids_pattern ''/3/0/1''" by (simp add: is_digit_def)
  show ?thesis
    using dispatch_first_match_or_not_found
        [of ?si "[(''PUT'', ids_pattern, ''write'')]" "(''GET'', ids_pattern, ''read'')" "[]"
            "\<lparr>req_method = ''GET'', req_url = ''/3/0/1'', urlObj = None\<rparr>" "\<lambda>u. u"
            "\<lparr>lib = ClientReadHandle, user = DefaultHandler\<rparr>" ?res]
      dispatch_first_match_or_not_found
        [of ?si "[]" "(''GET'', ids_pattern, ''read'')" "[]"
            "\<lparr>req_method = ''DELETE'', req_url = ''/3/0/1'', urlObj = None\<rparr>" "\<lambda>u. u"
            "\<lparr>lib = ClientReadHandle, user = DefaultHandler\<rparr>" ?res]
      a h p
    by (simp add: route_matches_def loadRoutes_def)
qed


section \<open>Registration\<close>

lemma scanOptions_record:
  "scanOptions opts d =
     d\<lparr>location := (if locationPaths opts = [] then location d else last (locationPaths opts))\<rparr>"
  by (induction opts arbitrary: d) (auto simp: locationPaths_def)

lemma scanOptions_location:
  "location (scanOptions opts d) =
     (if locationPaths opts = [] then location d else last (locationPaths opts))"
  by (simp add: scanOptions_record)

lemma startListener_started:
  "startListener h p handle None =
     Inr \<lparr>currentHost = h, currentPort = p, location = [],
          serverInfo = loadRoutes (loadHandlers \<lparr>server = handle, routes = [], handlers = Map.empty\<rparr>)\<rparr>"
  by (simp add: startListener_def startCoap_def)

lemma register_listening:
  "startListener h p handle listened = Inr d \<Longrightarrow>
   listening (register config h p u ep handle listened listing) =
     \<lparr>reg_host = h, reg_port = p, errorEmitted = False, deviceInfo = Some d\<rparr>"
  by (simp add: register_def)




text \<open>
  C9. After a registration whose router started, a 2.01 response makes the completion
  callback report success with a record whose location is the value of the last
  Location-Path option of the response, and the empty string when the response has no
  such option.
\<close>

theorem last_location_path_recorded:
  assumes "code res = ''2.01''"
  shows "\<exists>d'. snd (onEvent (listening (register config h p u ep handle None listing)) (ResponseEvent res))
             = [Callback (Inr d')] \<and>
           location d' = (if locationPaths (options res) = [] then [] else last (locationPaths (options res)))"
  using assms
  by (simp add: register_listening [OF startListener_started] responseHandler_def scanOptions_location)

theorem last_location_path_recorded_witness:
  "(\<exists>d'. snd (onEvent (listening (register \<lparr>lifetime = ''85671'', version = ''1.0''\<rparr> ''localhost'' ''5683''
                    Undefined ''robot1'' 0 None (Inr [])))
               (ResponseEvent \<lparr>code = ''2.01'',
                  options = [(''Location-Path'', ''/rd/1''), (''Content-Format'', ''40''),
                             (''Location-Path'', ''/rd/2'')], payload = []\<rparr>))
             = [Callback (Inr d')] \<and> location d' = ''/rd/2'') \<and>
   (\<exists>d'. snd (onEvent (listening (register \<lparr>lifetime = ''85671'', version = ''1.0''\<rparr> ''localhost'' ''5683''
                    Undefined ''robot1'' 0 None (Inr [])))
               (ResponseEvent \<lparr>code = ''2.01'', options = [(''Content-Format'', ''40'')], payload = []\<rparr>))
             = [Callback (Inr d')] \<and> location d' = [])"
  using last_location_path_recorded
      [of "\<lparr>code = ''2.01'',
                  options = [(''Location-Path'', ''/rd/1''), (''Content-Format'', ''40''),
                             (''Location-Path'', ''/rd/2'')], payload = []\<rparr>"
          "\<lparr>lifetime = ''85671'', version = ''1.0''\<rparr>" "''localhost''" "''5683''" Undefined "''robot1''" 0 "Inr []"]
    last_location_path_recorded
      [of "\<lparr>code = ''2.01'', options = [(''Content-Format'', ''40'')], payload = []\<rparr>"
          "\<lparr>lifetime = ''85671'', version = ''1.0''\<rparr>" "''localhost''" "''5683''" Undefined "''robot1''" 0 "Inr []"]
  by (simp add: locationPaths_def)

text \<open>
  C5. For a registration whose router started with the record \<open>d\<close>, two consecutive
  error events of the request stop the router of \<open>d\<close> (at each event) and invoke the
  completion callback once, with ServerNotFound for \<open>host:port\<close>.
\<close>

theorem error_reported_once:
  assumes "startListener h p handle None = Inr d"
  shows "snd (runEvents (listening (register config h p u ep handle None listing))
                [ErrorEvent e1, ErrorEvent e2])
         = [StopRouter (serverInfo d), Callback (Inl (ServerNotFound (h @ '':'' @ p))),
            StopRouter (serverInfo d)]"
  using assms
  by (simp add: register_listening errorListener_def)

theorem error_reported_once_witness:
  "snd (runEvents (listening (register \<lparr>lifetime = ''85671'', version = ''1.0''\<rparr> ''localhost'' ''5683''
                     Undefined ''robot1'' 0 None (Inr [])))
          [ErrorEvent ''ECONNREFUSED'', ErrorEvent ''ECONNREFUSED''])
   = [StopRouter (loadRoutes (loadHandlers \<lparr>server = 0, routes = [], handlers = Map.empty\<rparr>)),
      Callback (Inl (ServerNotFound ''localhost:5683'')),
      StopRouter (loadRoutes (loadHandlers \<lparr>server = 0, routes = [], handlers = Map.empty\<rparr>))]"
  using error_reported_once
      [OF startListener_started,
       of "\<lparr>lifetime = ''85671'', version = ''1.0''\<rparr>" "''localhost''" "''5683''" Undefined "''robot1''" 0
          "Inr []" "''ECONNREFUSED''" "''ECONNREFUSED''"]
  by simp

text \<open>
  C10. For a registration whose router started with the record \<open>d\<close>, an error event
  followed by a response event invokes the completion callback twice: with
  ServerNotFound, and then with what the response handler reports (the record for 2.01,
  RegistrationFailed otherwise). The response listener leaves the flag \<open>errorEmitted\<close>
  as it is, and what it does is the same whatever the flag.
\<close>

theorem response_after_error_calls_back_again:
  assumes "startListener h p handle None = Inr d"
  shows "snd (runEvents (listening (register config h p u ep handle None listing))
                [ErrorEvent e, ResponseEvent res])
         = [StopRouter (serverInfo d), Callback (Inl (ServerNotFound (h @ '':'' @ p))),
            Callback (if code res = ''2.01'' then Inr (scanOptions (options res) d)
                      else Inl (RegistrationFailed (code res)))] \<and>
         length (filter isCallback
           (snd (runEvents (listening (register config h p u ep handle None listing))
                [ErrorEvent e, ResponseEvent res]))) = 2 \<and>
         errorEmitted (fst (onEvent s (ResponseEvent res))) = errorEmitted s \<and>
         snd (onEvent (s\<lparr>errorEmitted := b\<rparr>) (ResponseEvent res)) = snd (onEvent s (ResponseEvent res))"
  using assms
  by (simp add: register_listening errorListener_def responseHandler_def)

theorem response_after_error_calls_back_again_witness:
  "filter isCallback
     (snd (runEvents (listening (register \<lparr>lifetime = ''85671'', version = ''1.0''\<rparr> ''localhost'' ''5683''
                        Undefined ''robot1'' 0 None (Inr [])))
            [ErrorEvent ''ETIMEDOUT'',
             ResponseEvent \<lparr>code = ''4.00'', options = [], payload = []\<rparr>]))
   = [Callback (Inl (ServerNotFound ''localhost:5683'')), Callback (Inl (RegistrationFailed ''4.00''))]"
  using response_after_error_calls_back_again
      [OF startListener_started,
       of "\<lparr>lifetime = ''85671'', version = ''1.0''\<rparr>" "''localhost''" "''5683''" Undefined "''robot1''" 0
          "Inr []" "''ETIMEDOUT''" "\<lparr>code = ''4.00'', options = [], payload = []\<rparr>"]
  by simp

section \<open>Update\<close>

text \<open>
  C7. Whatever response arrives, its listener invokes the callback with no error and
  with the record it was given, which it leaves as it is. The request of the update has
  the method PUT, the recorded location as its pathname and the lifetime, version and
  binding parameters as its query; the object listing is piped into it as its payload.
\<close>

theorem update_always_succeeds:
  "updateResponse d res = (d, [Callback (Inr d)]) \<and>
   method (fst (updateRegistration config d listing)) = ''PUT'' \<and>
   pathname (fst (updateRegistration config d listing)) = location d \<and>
   query (fst (updateRegistration config d listing)) =
     Some (''lt='' @ lifetime config @ ''&lwm2m='' @ version config @ ''&b=U'') \<and>
   snd (updateRegistration config d (Inr objects)) = Some (generatePayload objects)"
  by (simp add: updateResponse_def updateRegistration_def)

section \<open>Device-management pipelines\<close>

lemma decimal_digit: "n < 10 \<Longrightarrow> decimal n = [digit_char n]"
  by (simp add: decimal.simps)

lemma waterfall_found:
  "registry_get deviceId = Inr obj \<Longrightarrow>
   sent (waterfall registry_get sendRequest deviceId create process callback) = [create obj] \<and>
   map_option fst (delivered (waterfall registry_get sendRequest deviceId create process callback))
     = Some callback"
  by (simp add: waterfall_def sendAndProcess_def split: sum.splits)

lemma waterfall_answered:
  "registry_get deviceId = Inr obj \<Longrightarrow> sendRequest (create obj) = Inr res \<Longrightarrow>
   waterfall registry_get sendRequest deviceId create process callback =
     \<lparr>sent = [create obj], delivered = Some (callback, process res)\<rparr>"
  by (simp add: waterfall_def sendAndProcess_def)

text \<open>
  C4, as amended. When the device is known and the transport answers the write with
  the response \<open>res\<close>, the request sent is the one on \<open>/type/instance/resource\<close> and
  the callback receives: for code 2.04 the payload of the response; for code 4.04
  ObjectNotFound carrying \<open>/type/instance\<close>, the path of the object instance; for any
  other code ClientError carrying the code.
\<close>

theorem write_response_mapping:
  assumes "registry_get deviceId = Inr obj"
    and "sendRequest (createUpdateRequest objectType objectId resourceId val obj) = Inr res"
  shows "map pathname (sent (write_op registry_get sendRequest deviceId objectType objectId resourceId val callback))
           = [''/'' @ to_str objectType @ ''/'' @ to_str objectId @ ''/'' @ to_str resourceId] \<and>
         delivered (write_op registry_get sendRequest deviceId objectType objectId resourceId val callback)
           = Some (callback,
               if code res = ''2.04'' then Inr (payload res)
               else if code res = ''4.04''
                 then Inl (ObjectNotFound (''/'' @ to_str objectType @ ''/'' @ to_str objectId))
               else Inl (ClientError (code res)))"
  using assms
  by (simp add: write_op_def waterfall_answered write_processResponse_def createUpdateRequest_def
      path2_def path3_def)

theorem write_response_mapping_witness:
  "delivered (write_op (\<lambda>i. Inr \<lparr>address = ''10.0.0.5''\<rparr>)
       (\<lambda>r. Inr \<lparr>code = ''2.04'', options = [], payload = ''ok''\<rparr>)
       (VNum 42) (VStr ''3'') (VStr ''0'') (VStr ''1'') (VStr ''20'') (VFn ''done''))
     = Some (VFn ''done'', Inr ''ok'') \<and>
   delivered (write_op (\<lambda>i. Inr \<lparr>address = ''10.0.0.5''\<rparr>)
       (\<lambda>r. Inr \<lparr>code = ''5.00'', options = [], payload = []\<rparr>)
       (VNum 42) (VStr ''3'') (VStr ''0'') (VStr ''1'') (VStr ''20'') (VFn ''done''))
     = Some (VFn ''done'', Inl (ClientError ''5.00''))"
  using write_response_mapping
      [of "\<lambda>i. Inr \<lparr>address = ''10.0.0.5''\<rparr>" "VNum 42" "\<lparr>address = ''10.0.0.5''\<rparr>"
          "\<lambda>r. Inr \<lparr>code = ''2.04'', options = [], payload = ''ok''\<rparr>"
          "VStr ''3''" "VStr ''0''" "VStr ''1''" "VStr ''20''"
          "\<lparr>code = ''2.04'', options = [], payload = ''ok''\<rparr>" "VFn ''done''"]
    write_response_mapping
      [of "\<lambda>i. Inr \<lparr>address = ''10.0.0.5''\<rparr>" "VNum 42" "\<lparr>address = ''10.0.0.5''\<rparr>"
          "\<lambda>r. Inr \<lparr>code = ''5.00'', options = [], payload = []\<rparr>"
          "VStr ''3''" "VStr ''0''" "VStr ''1''" "VStr ''20''"
          "\<lparr>code = ''5.00'', options = [], payload = []\<rparr>" "VFn ''done''"]
  by simp

text \<open>
  C4 as stated fails: a write on \<open>/3/0/1\<close> answered with 4.04 yields ObjectNotFound
  carrying \<open>/3/0\<close>, not the path the write targeted.
\<close>

theorem write_not_found_path_counterexample:
  "map pathname (sent (write_op (\<lambda>i. Inr \<lparr>address = ''10.0.0.5''\<rparr>)
       (\<lambda>r. Inr \<lparr>code = ''4.04'', options = [], payload = []\<rparr>)
       (VNum 42) (VStr ''3'') (VStr ''0'') (VStr ''1'') (VStr ''20'') (VFn ''done''))) = [''/3/0/1''] \<and>
   delivered (write_op (\<lambda>i. Inr \<lparr>address = ''10.0.0.5''\<rparr>)
       (\<lambda>r. Inr \<lparr>code = ''4.04'', options = [], payload = []\<rparr>)
       (VNum 42) (VStr ''3'') (VStr ''0'') (VStr ''1'') (VStr ''20'') (VFn ''done''))
     = Some (VFn ''done'', Inl (ObjectNotFound ''/3/0'')) \<and>
   ObjectNotFound ''/3/0'' \<noteq> ObjectNotFound ''/3/0/1''"
  by (simp add: write_op_def waterfall_def sendAndProcess_def write_processResponse_def
      createUpdateRequest_def path2_def path3_def)

section \<open>The placeholders\<close>

lemma remove_calls_back:
  "remove_op [deviceId, objectType, objectId, VFn f] = \<lparr>stub_sent = [], stub_call = Invoked f [Null]\<rparr>"
  by (simp add: remove_op_def arg_def call_js_def)

lemma execute_calls_first_argument:
  "execute (VFn f # rest) = \<lparr>stub_sent = [], stub_call = Invoked f [Null]\<rparr>"
  by (simp add: execute_def arg_def call_js_def)

lemma stubs_send_nothing: "stub_sent (execute arguments) = [] \<and> stub_sent (remove_op arguments) = []"
  by (simp add: execute_def remove_op_def)

text \<open>
  C8, at the call with the signature of the other operations. \<open>execute\<close> called with a
  device id, three address components and a callback calls the device id: it throws and
  the callback is not invoked. \<open>remove\<close> called with a device id, two address
  components and a callback invokes the callback with no error. Neither sends a request.
\<close>

theorem execute_uniform_call_throws:
  "execute [VNum 42, VStr ''3'', VStr ''0'', VStr ''1'', VFn ''done'']
     = \<lparr>stub_sent = [], stub_call = Threw TypeError\<rparr> \<and>
   remove_op [VNum 42, VStr ''3'', VStr ''0'', VFn ''done'']
     = \<lparr>stub_sent = [], stub_call = Invoked ''done'' [Null]\<rparr>"
  by (simp add: execute_def remove_op_def arg_def call_js_def)

section \<open>Attribute validation\<close>

lemma member_validAttributes: "(k \<in> set validAttributes) = whitelisted k"
  by (auto simp: validAttributes_def whitelisted_def)

lemma callHasOwnProperty_builtin:
  "hasOwnPropertyOf attributes = Builtin \<Longrightarrow>
   callHasOwnProperty userCall attributes i = Inr (i \<in> fst ` set (own attributes))"
  by (simp add: callHasOwnProperty_def)

lemma scanAttributes_builtin:
  "hasOwnPropertyOf attributes = Builtin \<Longrightarrow>
   scanAttributes userCall attributes ps result errorList =
     Inr (result @ concat (map (\<lambda>a. fst a @ ''='' @ to_str (snd a) @ ''&'')
                 (filter (\<lambda>a. whitelisted (fst a))
                    (filter (\<lambda>a. fst a \<in> fst ` set (own attributes)) ps))),
          errorList @ filter (\<lambda>k. \<not> whitelisted k)
                        (map fst (filter (\<lambda>a. fst a \<in> fst ` set (own attributes)) ps)))"
  by (induction ps arbitrary: result errorList)
     (simp_all add: callHasOwnProperty_builtin member_validAttributes)

lemma enumerated_own:
  "list_all (\<lambda>a. fst a \<notin> fst ` set (own attributes)) (inherited attributes) \<Longrightarrow>
   filter (\<lambda>a. fst a \<in> fst ` set (own attributes)) (own attributes @ inherited attributes)
     = own attributes"
proof -
  assume a: "list_all (\<lambda>a. fst a \<notin> fst ` set (own attributes)) (inherited attributes)"
  have "filter (\<lambda>a. fst a \<in> fst ` set (own attributes)) (own attributes) = own attributes"
    by (simp add: filter_id_conv)
  moreover from a have "filter (\<lambda>a. fst a \<in> fst ` set (own attributes)) (inherited attributes) = []"
    by (simp add: list_all_iff filter_empty_conv)
  ultimately show ?thesis by simp
qed

lemma scanAttributes_enumerated:
  assumes "hasOwnPropertyOf attributes = Builtin"
    and "list_all (\<lambda>a. fst a \<notin> fst ` set (own attributes)) (inherited attributes)"
  shows "scanAttributes userCall attributes (own attributes @ inherited attributes) result errorList =
     Inr (result @ concat (map (\<lambda>a. fst a @ ''='' @ to_str (snd a) @ ''&'')
                 (filter (\<lambda>a. whitelisted (fst a)) (own attributes))),
          errorList @ filter (\<lambda>k. \<not> whitelisted k) (map fst (own attributes)))"
  by (simp only: scanAttributes_builtin [OF assms(1)] enumerated_own [OF assms(2)])

lemma createQueryParams_bad:
  assumes "hasOwnPropertyOf attributes = Builtin"
    and "list_all (\<lambda>a. fst a \<notin> fst ` set (own attributes)) (inherited attributes)"
    and "\<not> list_all whitelisted (map fst (own attributes))"
  shows "createQueryParams userCall attributes =
     Reported (Inl (UnsupportedAttributes
       (filter (\<lambda>k. \<not> whitelisted k) (map fst (own attributes)))))"
proof -
  from assms(3) have "filter (\<lambda>k. \<not> whitelisted k) (map fst (own attributes)) \<noteq> []"
    by (simp add: filter_empty_conv list_all_iff)
  then show ?thesis
    by (simp add: createQueryParams_def scanAttributes_enumerated [OF assms(1) assms(2)])
qed

lemma createQueryParams_good:
  assumes "hasOwnPropertyOf attributes = Builtin"
    and "list_all (\<lambda>a. fst a \<notin> fst ` set (own attributes)) (inherited attributes)"
    and "list_all whitelisted (map fst (own attributes))"
  shows "createQueryParams userCall attributes = Reported (Inr (queryOf (own attributes)))"
proof -
  from assms(3) have "filter (\<lambda>a. whitelisted (fst a)) (own attributes) = own attributes"
    by (simp add: list_all_iff)
  moreover from assms(3) have "filter (\<lambda>k. \<not> whitelisted k) (map fst (own attributes)) = []"
    by (simp add: list_all_iff filter_empty_conv)
  ultimately show ?thesis
    by (simp add: createQueryParams_def scanAttributes_enumerated [OF assms(1) assms(2)] queryOf_def)
qed

text \<open>
  For an attribute map whose \<open>hasOwnProperty\<close> is the built-in one and whose inherited
  properties are hidden by none of its own. If some own key is outside the whitelist,
  no request is sent and nothing is thrown, and the callback receives
  UnsupportedAttributes carrying every offending key, in the map's order (the device
  being known, or the registry answering only after \<open>createQueryParams\<close> has reported).
  If every own key is in the whitelist and the device is known, one request is sent, a
  PUT whose pathname is the path of the address followed by \<open>?\<close> and \<open>name=value&\<close> for
  each attribute.
\<close>

lemma writeAttributes_plain_map:
  assumes "hasOwnPropertyOf attributes = Builtin"
    and "list_all (\<lambda>a. fst a \<notin> fst ` set (own attributes)) (inherited attributes)"
  shows
  "(\<not> list_all whitelisted (map fst (own attributes)) \<longrightarrow>
      sent (writeAttributes userCall sync registry_get sendRequest process deviceId objectType objectId
              resourceId attributes callback) = [] \<and>
      thrown (writeAttributes userCall sync registry_get sendRequest process deviceId objectType objectId
              resourceId attributes callback) = None \<and>
      (registry_get deviceId = Inr obj \<or> \<not> sync \<longrightarrow>
        delivered (writeAttributes userCall sync registry_get sendRequest process deviceId objectType
                     objectId resourceId attributes callback)
          = Some (callback,
              Inl (UnsupportedAttributes
                     (filter (\<lambda>k. \<not> whitelisted k) (map fst (own attributes))))))) \<and>
   (list_all whitelisted (map fst (own attributes)) \<and> registry_get deviceId = Inr obj \<longrightarrow>
      sent (writeAttributes userCall sync registry_get sendRequest process deviceId objectType objectId
              resourceId attributes callback)
        = [createWriteAttributesRequest objectType objectId resourceId (obj, queryOf (own attributes))] \<and>
      method (createWriteAttributesRequest objectType objectId resourceId (obj, queryOf (own attributes)))
        = ''PUT'' \<and>
      pathname (createWriteAttributesRequest objectType objectId resourceId (obj, queryOf (own attributes)))
        = (if truthy objectType \<and> truthy objectId \<and> truthy resourceId
             then ''/'' @ to_str objectType @ ''/'' @ to_str objectId @ ''/'' @ to_str resourceId
           else if truthy objectType \<and> truthy objectId
             then ''/'' @ to_str objectType @ ''/'' @ to_str objectId
           else ''/'' @ to_str objectType) @ queryOf (own attributes))"
proof (intro conjI impI)
  assume bad: "\<not> list_all whitelisted (map fst (own attributes))"
  note q = createQueryParams_bad [OF assms bad]
  show "sent (writeAttributes userCall sync registry_get sendRequest process deviceId objectType objectId
              resourceId attributes callback) = []"
    by (simp add: writeAttributes_def parallel_def q split: sum.splits)
  show "thrown (writeAttributes userCall sync registry_get sendRequest process deviceId objectType objectId
              resourceId attributes callback) = None"
    by (simp add: writeAttributes_def parallel_def q split: sum.splits)
  assume "registry_get deviceId = Inr obj \<or> \<not> sync"
  then show "delivered (writeAttributes userCall sync registry_get sendRequest process deviceId objectType
                     objectId resourceId attributes callback)
          = Some (callback,
              Inl (UnsupportedAttributes
                     (filter (\<lambda>k. \<not> whitelisted k) (map fst (own attributes)))))"
    by (cases "registry_get deviceId") (auto simp: writeAttributes_def parallel_def q)
next
  assume a: "list_all whitelisted (map fst (own attributes)) \<and> registry_get deviceId = Inr obj"
  then have q: "createQueryParams userCall attributes = Reported (Inr (queryOf (own attributes)))"
    by (simp add: createQueryParams_good [OF assms])
  from a show "sent (writeAttributes userCall sync registry_get sendRequest process deviceId objectType
              objectId resourceId attributes callback)
        = [createWriteAttributesRequest objectType objectId resourceId (obj, queryOf (own attributes))]"
    by (simp add: writeAttributes_def parallel_def q sendAndProcess_def split: sum.splits)
  show "method (createWriteAttributesRequest objectType objectId resourceId (obj, queryOf (own attributes)))
        = ''PUT''"
    by (simp add: createWriteAttributesRequest_def)
  show "pathname (createWriteAttributesRequest objectType objectId resourceId (obj, queryOf (own attributes)))
        = (if truthy objectType \<and> truthy objectId \<and> truthy resourceId
             then ''/'' @ to_str objectType @ ''/'' @ to_str objectId @ ''/'' @ to_str resourceId
           else if truthy objectType \<and> truthy objectId
             then ''/'' @ to_str objectType @ ''/'' @ to_str objectId
           else ''/'' @ to_str objectType) @ queryOf (own attributes)"
    by (simp add: createWriteAttributesRequest_def path1_def path2_def path3_def)
qed

lemma writeAttributes_plain_map_example:
  "map pathname (sent (writeAttributes (\<lambda>g args. Inr Undefined) True
       (\<lambda>i. Inr \<lparr>address = ''10.0.0.5''\<rparr>)
       (\<lambda>r. Inr \<lparr>code = ''2.04'', options = [], payload = []\<rparr>)
       (\<lambda>t i r c res. Inr (payload res))
       (VNum 42) (VStr ''6'') (VStr ''2'') (VStr ''3'')
       \<lparr>own = [(''pmin'', VStr ''5000''), (''pmax'', VStr ''20000'')], inherited = [], plain = True\<rparr>
       (VFn ''done''))) = [''/6/2/3?pmin=5000&pmax=20000&'']"
  by (simp add: writeAttributes_def createQueryParams_def callHasOwnProperty_def hasOwnPropertyOf_def
      validAttributes_def parallel_def sendAndProcess_def createWriteAttributesRequest_def path3_def)

text \<open>
  C2, at an attribute map with a key named \<open>hasOwnProperty\<close>. For the device 42, known
  to the registry, the call with the map \<open>{hasOwnProperty: 'x'}\<close>, whose only key is
  outside the whitelist, throws a TypeError: no request is sent, and the callback is
  not invoked, so no UnsupportedAttributes is reported. The call with the map
  \<open>{pmin: '5000', colour: 'red', gt: '14', size: '9'}\<close> sends no request and hands the
  callback UnsupportedAttributes carrying \<open>colour\<close> and \<open>size\<close>.
\<close>

theorem writeAttributes_hasOwnProperty_key_throws:
  "writeAttributes (\<lambda>g args. Inr Undefined) True
       (\<lambda>i. Inr \<lparr>address = ''10.0.0.5''\<rparr>)
       (\<lambda>r. Inr \<lparr>code = ''2.04'', options = [], payload = []\<rparr>)
       (\<lambda>t i r c res. Inr (payload res))
       (VNum 42) (VStr ''6'') (VStr ''2'') (VStr ''3'')
       \<lparr>own = [(''hasOwnProperty'', VStr ''x'')], inherited = [], plain = True\<rparr>
       (VFn ''done'')
     = \<lparr>sent = [], delivered = None, thrown = Some TypeError\<rparr> \<and>
   writeAttributes (\<lambda>g args. Inr Undefined) True
       (\<lambda>i. Inr \<lparr>address = ''10.0.0.5''\<rparr>)
       (\<lambda>r. Inr \<lparr>code = ''2.04'', options = [], payload = []\<rparr>)
       (\<lambda>t i r c res. Inr (payload res))
       (VNum 42) (VStr ''6'') (VStr ''2'') (VStr ''3'')
       \<lparr>own = [(''pmin'', VStr ''5000''), (''colour'', VStr ''red''), (''gt'', VStr ''14''),
               (''size'', VStr ''9'')], inherited = [], plain = True\<rparr>
       (VFn ''done'')
     = \<lparr>sent = [], delivered = Some (VFn ''done'', Inl (UnsupportedAttributes [''colour'', ''size''])),
        thrown = None\<rparr>"
  by (simp add: writeAttributes_def createQueryParams_def callHasOwnProperty_def hasOwnPropertyOf_def
      validAttributes_def parallel_def)

section \<open>Discover\<close>

text \<open>
  What the tests of \<open>discover\<close> do for truthy components. The device being known: a call
  with the object type and a function sends a GET on \<open>/type\<close>; a call with the object
  type, a truthy instance id (a non-empty string or a number other than 0) and a
  function sends a GET on \<open>/type/instance\<close>; a call with the object type, truthy
  instance and resource ids and a function sends a GET on \<open>/type/instance/resource\<close>;
  in each case the function is the callback the pipeline completes with. The call
  \<open>discover(deviceId, 3)\<close> sends a GET on \<open>/3\<close> with the option
  Accept: application/link-format.
\<close>

lemma discover_truthy_components:
  assumes "registry_get deviceId = Inr obj"
  shows
   "map pathname (sent (discover registry_get sendRequest process deviceId t (VFn f) Undefined Undefined))
      = [''/'' @ to_str t] \<and>
    map_option fst (delivered (discover registry_get sendRequest process deviceId t (VFn f) Undefined Undefined))
      = Some (VFn f) \<and>
    (truthy i \<longrightarrow>
      map pathname (sent (discover registry_get sendRequest process deviceId t i (VFn f) Undefined))
        = [''/'' @ to_str t @ ''/'' @ to_str i] \<and>
      map_option fst (delivered (discover registry_get sendRequest process deviceId t i (VFn f) Undefined))
        = Some (VFn f)) \<and>
    (truthy i \<and> truthy r \<longrightarrow>
      map pathname (sent (discover registry_get sendRequest process deviceId t i r (VFn f)))
        = [''/'' @ to_str t @ ''/'' @ to_str i @ ''/'' @ to_str r] \<and>
      map_option fst (delivered (discover registry_get sendRequest process deviceId t i r (VFn f)))
        = Some (VFn f)) \<and>
    sent (discover registry_get sendRequest process deviceId (VNum 3) Undefined Undefined Undefined)
      = [\<lparr>host = address obj, port = VNum 5683, method = ''GET'', pathname = ''/3'',
          query = None, req_payload = None,
          req_options = [(''Accept'', ''application/link-format'')], agent = None\<rparr>]"
  using assms
  by (simp add: discover_def waterfall_found discover_pathname_def discover_trueCallback_def
      createReadRequest_def path1_def path2_def path3_def decimal_digit digit_char_def)

text \<open>
  C6, at the instance id 0. For the device 42, known to the registry, the call
  \<open>discover(42, 3, 0, done)\<close> supplies the object type 3 and the instance id 0 and then
  the callback: the one request sent is a GET on \<open>/3\<close>, not on \<open>/3/0\<close>, and the
  pipeline completes with the value 0 in the place of the callback, so \<open>done\<close> is not
  invoked. The call \<open>discover(42, 3, 1, done)\<close> sends a GET on \<open>/3/1\<close> and completes
  with \<open>done\<close>.
\<close>

theorem discover_instance_zero_loses_callback:
  "map pathname (sent (discover (\<lambda>i. Inr \<lparr>address = ''10.0.0.5''\<rparr>)
       (\<lambda>r. Inr \<lparr>code = ''2.05'', options = [], payload = ''</3/0/1>''\<rparr>)
       (\<lambda>t i r c res. Inr (payload res))
       (VNum 42) (VNum 3) (VNum 0) (VFn ''done'') Undefined)) = [''/3''] \<and>
   map_option fst (delivered (discover (\<lambda>i. Inr \<lparr>address = ''10.0.0.5''\<rparr>)
       (\<lambda>r. Inr \<lparr>code = ''2.05'', options = [], payload = ''</3/0/1>''\<rparr>)
       (\<lambda>t i r c res. Inr (payload res))
       (VNum 42) (VNum 3) (VNum 0) (VFn ''done'') Undefined)) = Some (VNum 0) \<and>
   ''/3'' \<noteq> ''/3/0'' \<and> VNum 0 \<noteq> VFn ''done'' \<and>
   map pathname (sent (discover (\<lambda>i. Inr \<lparr>address = ''10.0.0.5''\<rparr>)
       (\<lambda>r. Inr \<lparr>code = ''2.05'', options = [], payload = ''</3/1/1>''\<rparr>)
       (\<lambda>t i r c res. Inr (payload res))
       (VNum 42) (VNum 3) (VNum 1) (VFn ''done'') Undefined)) = [''/3/1''] \<and>
   map_option fst (delivered (discover (\<lambda>i. Inr \<lparr>address = ''10.0.0.5''\<rparr>)
       (\<lambda>r. Inr \<lparr>code = ''2.05'', options = [], payload = ''</3/1/1>''\<rparr>)
       (\<lambda>t i r c res. Inr (payload res))
       (VNum 42) (VNum 3) (VNum 1) (VFn ''done'') Undefined)) = Some (VFn ''done'')"
  by (simp add: discover_def waterfall_def sendAndProcess_def discover_pathname_def discover_trueCallback_def
      createReadRequest_def path1_def path2_def decimal_digit digit_char_def)

end
